theory Spec2Isabelle
  imports
    Complex_Main
    "HOL-Library.Multiset"
    "HOL-Library.Char_ord"
    "HOL-Library.List_Lexorder"
    "HOL-Library.Product_Lexorder"
begin

chapter \<open>The model\<close>

section \<open>Floating-point values\<close>

text \<open>
  pandas and NumPy compute in IEEE double precision. A value is a finite number, an
  infinity or NaN, which pandas also uses for a missing cell. The special values follow
  IEEE 754: NaN propagates through arithmetic and makes every comparison false,
  \<open>0/0\<close>, \<open>inf - inf\<close> and \<open>0 * inf\<close> are NaN, and \<open>x/0\<close> is an infinity for a
  nonzero \<open>x\<close> (every zero divisor of the program is a positive zero). Finite
  arithmetic is exact here: the rounding of a finite result to 53 bits and its overflow
  to an infinity are outside the model.
\<close>

datatype pyfloat = Fin real | PInf | NInf | NaN

fun fneg :: "pyfloat \<Rightarrow> pyfloat" where
  "fneg (Fin a) = Fin (- a)"
| "fneg PInf = NInf"
| "fneg NInf = PInf"
| "fneg NaN = NaN"

fun fadd :: "pyfloat \<Rightarrow> pyfloat \<Rightarrow> pyfloat" where
  "fadd NaN y = NaN"
| "fadd x NaN = NaN"
| "fadd (Fin a) (Fin b) = Fin (a + b)"
| "fadd PInf NInf = NaN"
| "fadd NInf PInf = NaN"
| "fadd PInf y = PInf"
| "fadd NInf y = NInf"
| "fadd (Fin a) PInf = PInf"
| "fadd (Fin a) NInf = NInf"

definition fsub :: "pyfloat \<Rightarrow> pyfloat \<Rightarrow> pyfloat" where
  "fsub x y = fadd x (fneg y)"

fun fmul :: "pyfloat \<Rightarrow> pyfloat \<Rightarrow> pyfloat" where
  "fmul NaN y = NaN"
| "fmul x NaN = NaN"
| "fmul (Fin a) (Fin b) = Fin (a * b)"
| "fmul (Fin a) PInf = (if a = 0 then NaN else if 0 < a then PInf else NInf)"
| "fmul (Fin a) NInf = (if a = 0 then NaN else if 0 < a then NInf else PInf)"
| "fmul PInf (Fin b) = (if b = 0 then NaN else if 0 < b then PInf else NInf)"
| "fmul NInf (Fin b) = (if b = 0 then NaN else if 0 < b then NInf else PInf)"
| "fmul PInf PInf = PInf"
| "fmul PInf NInf = NInf"
| "fmul NInf PInf = NInf"
| "fmul NInf NInf = PInf"

fun fdiv :: "pyfloat \<Rightarrow> pyfloat \<Rightarrow> pyfloat" where
  "fdiv NaN y = NaN"
| "fdiv x NaN = NaN"
| "fdiv (Fin a) (Fin b) =
     (if b = 0 then (if a = 0 then NaN else if 0 < a then PInf else NInf)
      else Fin (a / b))"
| "fdiv (Fin a) PInf = Fin 0"
| "fdiv (Fin a) NInf = Fin 0"
| "fdiv PInf (Fin b) = (if 0 \<le> b then PInf else NInf)"
| "fdiv NInf (Fin b) = (if 0 \<le> b then NInf else PInf)"
| "fdiv PInf PInf = NaN"
| "fdiv PInf NInf = NaN"
| "fdiv NInf PInf = NaN"
| "fdiv NInf NInf = NaN"

text \<open>Python's \<open><\<close> and \<open>==\<close> on floats: false as soon as one side is NaN.\<close>

fun flt :: "pyfloat \<Rightarrow> pyfloat \<Rightarrow> bool" where
  "flt (Fin a) (Fin b) = (a < b)"
| "flt NInf (Fin b) = True"
| "flt NInf PInf = True"
| "flt (Fin a) PInf = True"
| "flt x y = False"


text \<open>
  The order in which a sort arranges floats (NaN last, as NumPy does), as a key into
  a linear order.
\<close>

fun fkey :: "pyfloat \<Rightarrow> nat \<times> real" where
  "fkey NInf = (0, 0)"
| "fkey (Fin r) = (1, r)"
| "fkey PInf = (2, 0)"
| "fkey NaN = (3, 0)"

text \<open>
  \<open>Series.min()\<close> and \<open>Series.max()\<close> skip NaN; on a series with no other value
  they return NaN.
\<close>

definition fmin :: "pyfloat \<Rightarrow> pyfloat \<Rightarrow> pyfloat" where
  "fmin x y = (if flt y x then y else x)"

definition fmax :: "pyfloat \<Rightarrow> pyfloat \<Rightarrow> pyfloat" where
  "fmax x y = (if flt x y then y else x)"

definition series_min :: "pyfloat list \<Rightarrow> pyfloat" where
  "series_min s =
     (case filter (\<lambda>x. x \<noteq> NaN) s of [] \<Rightarrow> NaN | y # ys \<Rightarrow> fold fmin ys y)"

definition series_max :: "pyfloat list \<Rightarrow> pyfloat" where
  "series_max s =
     (case filter (\<lambda>x. x \<noteq> NaN) s of [] \<Rightarrow> NaN | y # ys \<Rightarrow> fold fmax ys y)"

section \<open>utils.py\<close>


text \<open>
  \<open>Series.rank(ascending=False, method='min')\<close>: the values other than NaN are
  sorted in descending order and numbered from 1; a value gets the lowest number of its
  group of ties, and NaN is ranked NaN. With \<open>method='average'\<close> (the default) it
  gets the mean of the numbers of its group, and \<open>pct=True\<close> divides by the number of
  ranked values.
\<close>

definition sorted_desc :: "pyfloat list \<Rightarrow> pyfloat list" where
  "sorted_desc col = rev (sort_key fkey (filter (\<lambda>y. y \<noteq> NaN) col))"

definition rank_min_desc :: "pyfloat list \<Rightarrow> pyfloat \<Rightarrow> pyfloat" where
  "rank_min_desc col x =
     (if x = NaN then NaN
      else Fin (real (Suc (length (takeWhile (\<lambda>y. y \<noteq> x) (sorted_desc col))))))"

definition rank_avg_desc :: "pyfloat list \<Rightarrow> pyfloat \<Rightarrow> pyfloat" where
  "rank_avg_desc col x =
     (if x = NaN then NaN
      else let before = length (takeWhile (\<lambda>y. y \<noteq> x) (sorted_desc col));
               ties = length (filter (\<lambda>y. y = x) (sorted_desc col))
           in Fin ((real (Suc before) + real (before + ties)) / 2))"

definition calculate_percentile_rank :: "pyfloat list \<Rightarrow> pyfloat list" where
  "calculate_percentile_rank col =
     map (\<lambda>x. fmul (fdiv (rank_avg_desc col x) (Fin (real (length (sorted_desc col)))))
                    (Fin 100)) col"

section \<open>index.py\<close>

datatype error =
    ValueError_weights_sum pyfloat
  | KeyError string
  | IntCastingNaNError

record signal_row =
  state :: string
  district :: string
  period :: string
  UIS :: pyfloat
  RIS :: pyfloat
  BSS :: pyfloat
  TSD :: pyfloat

record raw_row = signal_row +
  AFI_raw :: pyfloat

record afi_row = raw_row +
  AFI :: pyfloat

record ranked_row = afi_row +
  national_rank :: int
  state_rank :: int
  national_percentile :: pyfloat

text \<open>The weights are a dict from component names to floats.\<close>

type_synonym weights = "(string \<times> pyfloat) list"

definition WEIGHTS :: weights where
  "WEIGHTS = [(''UIS'', Fin 0.30), (''RIS'', Fin 0.25), (''BSS'', Fin 0.25), (''TSD'', Fin 0.20)]"

text \<open>
  \<open>np.isclose(a, b)\<close> with its default tolerances \<open>rtol = 1e-05\<close> and
  \<open>atol = 1e-08\<close>: \<open>|a - b| \<le> atol + rtol * |b|\<close> on finite values, equality on
  infinities, false on NaN.
\<close>

fun isclose :: "pyfloat \<Rightarrow> pyfloat \<Rightarrow> bool" where
  "isclose (Fin a) (Fin b) = (\<bar>a - b\<bar> \<le> 1 / 10 ^ 8 + 1 / 10 ^ 5 * \<bar>b\<bar>)"
| "isclose NaN y = False"
| "isclose x NaN = False"
| "isclose x y = (x = y)"

text \<open>\<open>sum(weights.values())\<close> starts from 0 and adds the values in the dict's order.\<close>

definition weight_sum :: "weights \<Rightarrow> pyfloat" where
  "weight_sum w = foldl fadd (Fin 0) (map snd w)"

definition lookup_weight :: "weights \<Rightarrow> string \<Rightarrow> error + pyfloat" where
  "lookup_weight w k = (case map_of w k of None \<Rightarrow> Inl (KeyError k) | Some v \<Rightarrow> Inr v)"

definition weighted_sum :: "pyfloat \<Rightarrow> pyfloat \<Rightarrow> pyfloat \<Rightarrow> pyfloat \<Rightarrow> 'a signal_row_scheme \<Rightarrow> pyfloat" where
  "weighted_sum wu wr wb wt r =
     fadd (fadd (fadd (fmul wu (UIS r)) (fmul wr (RIS r))) (fmul wb (BSS r))) (fmul wt (TSD r))"

definition calculate_afi_raw :: "signal_row list \<Rightarrow> weights \<Rightarrow> error + raw_row list" where
  "calculate_afi_raw df w =
     (if \<not> isclose (weight_sum w) (Fin 1) then Inl (ValueError_weights_sum (weight_sum w))
      else case lookup_weight w ''UIS'' of Inl e \<Rightarrow> Inl e | Inr wu \<Rightarrow>
           case lookup_weight w ''RIS'' of Inl e \<Rightarrow> Inl e | Inr wr \<Rightarrow>
           case lookup_weight w ''BSS'' of Inl e \<Rightarrow> Inl e | Inr wb \<Rightarrow>
           case lookup_weight w ''TSD'' of Inl e \<Rightarrow> Inl e | Inr wt \<Rightarrow>
             Inr (map (\<lambda>r. signal_row.extend r (raw_row.fields (weighted_sum wu wr wb wt r))) df))"

text \<open>
  \<^verbatim>\<open>df['AFI'] = 100 * (df['AFI_raw'] - afi_min) / (afi_max - afi_min)\<close>, with no
  guard on the divisor.
\<close>

definition normalize_afi :: "raw_row list \<Rightarrow> afi_row list" where
  "normalize_afi df =
     (let afi_min = series_min (map AFI_raw df); afi_max = series_max (map AFI_raw df) in
      map (\<lambda>r. raw_row.extend r (afi_row.fields
                 (fdiv (fmul (Fin 100) (fsub (AFI_raw r) afi_min)) (fsub afi_max afi_min)))) df)"

text \<open>
  \<open>astype(int)\<close> raises on NaN and on an infinity, and truncates a finite value
  towards zero.
\<close>

fun to_int :: "pyfloat \<Rightarrow> int option" where
  "to_int (Fin r) = Some (if 0 \<le> r then \<lfloor>r\<rfloor> else \<lceil>r\<rceil>)"
| "to_int x = None"

definition astype_int :: "pyfloat list \<Rightarrow> error + int list" where
  "astype_int col =
     (if \<forall>x \<in> set col. to_int x \<noteq> None then Inr (map (\<lambda>x. the (to_int x)) col)
      else Inl IntCastingNaNError)"

text \<open>
  \<open>add_rankings\<close>: the national rank over the whole AFI column, the state rank over
  the rows of the same state (\<open>groupby('state')\<close>), and the percentile.
\<close>

definition state_rank_column :: "afi_row list \<Rightarrow> pyfloat list" where
  "state_rank_column df =
     map (\<lambda>r. rank_min_desc (map AFI (filter (\<lambda>r'. state r' = state r) df)) (AFI r)) df"

definition add_rankings :: "afi_row list \<Rightarrow> error + ranked_row list" where
  "add_rankings df =
     (case astype_int (map (rank_min_desc (map AFI df)) (map AFI df)) of
        Inl e \<Rightarrow> Inl e
      | Inr national \<Rightarrow>
         (case astype_int (state_rank_column df) of
            Inl e \<Rightarrow> Inl e
          | Inr by_state \<Rightarrow>
              Inr (map (\<lambda>i. afi_row.extend (df ! i)
                     (ranked_row.fields (national ! i) (by_state ! i)
                        (calculate_percentile_rank (map AFI df) ! i)))
                   [0..<length df])))"

fun categorize_afi :: "pyfloat \<Rightarrow> string" where
  "categorize_afi score =
     (if flt score (Fin 20) then ''Very Low Friction''
      else if flt score (Fin 40) then ''Low Friction''
      else if flt score (Fin 60) then ''Moderate Friction''
      else if flt score (Fin 80) then ''High Friction''
      else ''Very High Friction'')"

text \<open>
  \<open>add_categories\<close> works on any frame with an AFI column; the result pairs each
  row with its \<open>friction_category\<close>.
\<close>

definition add_categories :: "'a afi_row_scheme list \<Rightarrow> ('a afi_row_scheme \<times> string) list" where
  "add_categories df = map (\<lambda>r. (r, categorize_afi (AFI r))) df"

section \<open>preprocessing.py\<close>

subsection \<open>Strings\<close>

text \<open>
  The string methods the cleaning step calls, on ASCII text: \<open>str.lower\<close>,
  \<open>str.strip\<close> (Python's ASCII whitespace), \<open>str.replace(' ', '_')\<close> and
  \<open>str.title\<close>, which upper-cases a letter that follows no letter and lower-cases a
  letter that follows one. A byte outside ASCII is left as it is.
\<close>

definition upper_letters :: string where
  "upper_letters = ''ABCDEFGHIJKLMNOPQRSTUVWXYZ''"

definition lower_letters :: string where
  "lower_letters = ''abcdefghijklmnopqrstuvwxyz''"

definition lower_char :: "char \<Rightarrow> char" where
  "lower_char c = (case map_of (zip upper_letters lower_letters) c of None \<Rightarrow> c | Some d \<Rightarrow> d)"

definition upper_char :: "char \<Rightarrow> char" where
  "upper_char c = (case map_of (zip lower_letters upper_letters) c of None \<Rightarrow> c | Some d \<Rightarrow> d)"

definition is_cased :: "char \<Rightarrow> bool" where
  "is_cased c = (c \<in> set upper_letters \<or> c \<in> set lower_letters)"

definition is_space :: "char \<Rightarrow> bool" where
  "is_space c = (c \<in> set [CHR 0x20, CHR 0x09, CHR 0x0A, CHR 0x0B, CHR 0x0C, CHR 0x0D,
                          CHR 0x1C, CHR 0x1D, CHR 0x1E, CHR 0x1F])"

definition strip :: "string \<Rightarrow> string" where
  "strip s = rev (dropWhile is_space (rev (dropWhile is_space s)))"

definition replace_space :: "string \<Rightarrow> string" where
  "replace_space s = map (\<lambda>c. if c = CHR '' '' then CHR ''_'' else c) s"

fun title_from :: "bool \<Rightarrow> string \<Rightarrow> string" where
  "title_from previous_is_cased [] = []"
| "title_from previous_is_cased (c # cs) =
     (if previous_is_cased then lower_char c else upper_char c) # title_from (is_cased c) cs"

definition title :: "string \<Rightarrow> string" where
  "title s = title_from False s"

text \<open>\<^verbatim>\<open>df.columns.str.lower().str.strip().str.replace(' ', '_')\<close>\<close>

definition normalize_name :: "string \<Rightarrow> string" where
  "normalize_name n = replace_space (strip (map lower_char n))"

subsection \<open>Frames\<close>

text \<open>
  A dataset has the three key columns, which hold strings, and any number of other
  columns, which hold counters: a cell of such a column is a finite number, or missing
  (\<open>None\<close>, pandas' NaN). The frame is kept by columns, as pandas keeps it; a row is
  read across the columns at one position. The columns of a frame that pandas holds all
  have the same length: the frame is \<open>rectangular\<close>.
\<close>

type_synonym cell = "real option"

record frame =
  states :: "string list"
  districts :: "string list"
  periods :: "string list"
  numeric :: "(string \<times> cell list) list"

type_synonym row = "string \<times> string \<times> string \<times> cell list"


definition rows_of :: "frame \<Rightarrow> row list" where
  "rows_of df =
     map (\<lambda>i. (states df ! i, districts df ! i, periods df ! i,
               map (\<lambda>c. snd c ! i) (numeric df)))
         [0..<length (states df)]"

definition of_rows :: "string list \<Rightarrow> row list \<Rightarrow> frame" where
  "of_rows names rs =
     \<lparr>states = map (\<lambda>(s, d, p, vs). s) rs,
      districts = map (\<lambda>(s, d, p, vs). d) rs,
      periods = map (\<lambda>(s, d, p, vs). p) rs,
      numeric = map (\<lambda>j. (names ! j, map (\<lambda>(s, d, p, vs). vs ! j) rs)) [0..<length names]\<rparr>"

text \<open>
  \<open>drop_duplicates()\<close> keeps the first of the rows that agree in every column; two
  missing cells agree.
\<close>

fun keep_first :: "'a list \<Rightarrow> 'a list \<Rightarrow> 'a list" where
  "keep_first seen [] = []"
| "keep_first seen (x # xs) =
     (if x \<in> set seen then keep_first seen xs else x # keep_first (x # seen) xs)"

definition drop_duplicates :: "frame \<Rightarrow> frame" where
  "drop_duplicates df = of_rows (map fst (numeric df)) (keep_first [] (rows_of df))"

subsection \<open>\<open>clean_common_columns\<close>\<close>

text \<open>
  The period column goes through \<^verbatim>\<open>pd.to_datetime(...).dt.strftime('%Y-%m')\<close>.
  What pandas accepts as a date is not fixed here: the cleaning takes the conversion of
  one period string as a parameter, \<open>None\<close> where pandas raises. \<open>iso_month\<close> is the
  conversion on the ISO forms \<open>YYYY-MM\<close> and \<open>YYYY-MM-DD\<close> of the dates that
  fit pandas' nanosecond timestamps in every month (the years 1678 to 2261).

  A column whose normalized name is a key's makes \<^verbatim>\<open>df['state']\<close> a frame, on which
  \<open>.str\<close> raises.
\<close>

definition is_digit :: "char \<Rightarrow> bool" where
  "is_digit c = (c \<in> set ''0123456789'')"

definition digit_val :: "char \<Rightarrow> nat" where
  "digit_val c = length (takeWhile (\<lambda>d. d \<noteq> c) ''0123456789'')"

definition days_in_month :: "nat \<Rightarrow> nat \<Rightarrow> nat" where
  "days_in_month y m =
     (if m \<in> {4, 6, 9, 11} then 30
      else if m = 2 then (if y mod 4 = 0 \<and> (y mod 100 \<noteq> 0 \<or> y mod 400 = 0) then 29 else 28)
      else 31)"

definition valid_month :: "string \<Rightarrow> bool" where
  "valid_month s =
     (case s of
        [y1, y2, y3, y4, dash, m1, m2] \<Rightarrow>
          (let y = 1000 * digit_val y1 + 100 * digit_val y2 + 10 * digit_val y3 + digit_val y4;
               m = 10 * digit_val m1 + digit_val m2
           in (\<forall>c \<in> set [y1, y2, y3, y4, m1, m2]. is_digit c) \<and> dash = CHR ''-''
              \<and> 1678 \<le> y \<and> y \<le> 2261 \<and> 1 \<le> m \<and> m \<le> 12)
      | _ \<Rightarrow> False)"

definition valid_day :: "string \<Rightarrow> string \<Rightarrow> bool" where
  "valid_day ym s =
     (case (ym, s) of
        ([y1, y2, y3, y4, dash, m1, m2], [dash', d1, d2]) \<Rightarrow>
          (let y = 1000 * digit_val y1 + 100 * digit_val y2 + 10 * digit_val y3 + digit_val y4;
               m = 10 * digit_val m1 + digit_val m2;
               d = 10 * digit_val d1 + digit_val d2
           in is_digit d1 \<and> is_digit d2 \<and> dash' = CHR ''-'' \<and> 1 \<le> d \<and> d \<le> days_in_month y m)
      | _ \<Rightarrow> False)"

definition iso_month :: "string \<Rightarrow> string option" where
  "iso_month s =
     (if valid_month s then Some s
      else if valid_month (take 7 s) \<and> valid_day (take 7 s) (drop 7 s) then Some (take 7 s)
      else None)"

datatype prep_error = AttributeError | DateParseError | AmbiguousTruthValue

definition clean_common_columns :: "(string \<Rightarrow> string option) \<Rightarrow> frame \<Rightarrow> prep_error + frame" where
  "clean_common_columns to_period df =
     (let names = map (\<lambda>c. normalize_name (fst c)) (numeric df) in
      if set names \<inter> {''state'', ''district'', ''period''} \<noteq> {} then Inl AttributeError
      else case those (map to_period (periods df)) of
             None \<Rightarrow> Inl DateParseError
           | Some ps \<Rightarrow>
               Inr (drop_duplicates
                 \<lparr>states = map (\<lambda>s. title (strip s)) (states df),
                  districts = map (\<lambda>s. title (strip s)) (districts df),
                  periods = ps,
                  numeric = zip names (map snd (numeric df))\<rparr>))"

subsection \<open>Medians, percentiles and the three cleaning passes\<close>

text \<open>
  \<open>median()\<close> and \<open>quantile(q)\<close> skip missing cells and are NaN on a column with no
  other cell. The quantile interpolates linearly between the two sorted values around
  position \<open>(n - 1) * q\<close>.
\<close>

definition present :: "cell list \<Rightarrow> real list" where
  "present col = map the (filter (\<lambda>v. v \<noteq> None) col)"

definition median :: "cell list \<Rightarrow> cell" where
  "median col =
     (let xs = sort (present col); n = length xs in
      if n = 0 then None
      else if odd n then Some (xs ! (n div 2))
      else Some ((xs ! (n div 2 - 1) + xs ! (n div 2)) / 2))"

definition quantile :: "cell list \<Rightarrow> real \<Rightarrow> cell" where
  "quantile col q =
     (let xs = sort (present col); n = length xs in
      if n = 0 then None
      else let pos = real (n - 1) * q; lo = nat \<lfloor>pos\<rfloor>; hi = min (lo + 1) (n - 1) in
           Some (xs ! lo + (xs ! hi - xs ! lo) * (pos - real lo)))"

definition fillna :: "cell \<Rightarrow> cell list \<Rightarrow> cell list" where
  "fillna m col = map (\<lambda>v. case v of None \<Rightarrow> m | Some x \<Rightarrow> Some x) col"

text \<open>
  \<^verbatim>\<open>df.groupby(['state', 'district'])[col].transform(lambda x: x.fillna(x.median()))\<close>:
  a missing cell gets the median of the cells of its own state and district.
\<close>

definition group_fill :: "string list \<Rightarrow> string list \<Rightarrow> cell list \<Rightarrow> cell list" where
  "group_fill sts dis col =
     map (\<lambda>(s, d, v).
            case v of
              Some x \<Rightarrow> Some x
            | None \<Rightarrow> median (map (\<lambda>(s', d', v'). v')
                         (filter (\<lambda>(s', d', v'). s' = s \<and> d' = d) (zip sts (zip dis col)))))
         (zip sts (zip dis col))"

definition impute :: "string list \<Rightarrow> string list \<Rightarrow> cell list \<Rightarrow> cell list" where
  "impute sts dis col =
     (if None \<in> set col
      then (let filled = group_fill sts dis col in fillna (median filled) filled)
      else col)"

definition clip_negative :: "cell list \<Rightarrow> cell list" where
  "clip_negative col =
     (if \<exists>x \<in> set (present col). x < 0 then map (map_option (max 0)) col else col)"

definition cap_outliers :: "cell list \<Rightarrow> cell list" where
  "cap_outliers col =
     (case quantile col (99 / 100) of
        None \<Rightarrow> col
      | Some threshold \<Rightarrow>
          (if \<exists>x \<in> set (present col). threshold < x
           then map (map_option (\<lambda>x. if threshold < x then threshold else x)) col
           else col))"

definition on_columns :: "(cell list \<Rightarrow> cell list) \<Rightarrow> frame \<Rightarrow> frame" where
  "on_columns f df = df\<lparr>numeric := map (\<lambda>(name, col). (name, f col)) (numeric df)\<rparr>"

text \<open>
  \<open>preprocess_biometric\<close> runs three loops over the columns: imputation, clipping of
  negatives, capping. \<open>preprocess_demographic\<close> and \<open>preprocess_enrolment\<close> run the
  imputation loop and then one loop that clips and caps each column. Two columns of the
  same name make \<^verbatim>\<open>df[col]\<close> a frame, whose truth value in the \<open>if\<close> raises.
\<close>

definition preprocess_biometric :: "(string \<Rightarrow> string option) \<Rightarrow> frame \<Rightarrow> prep_error + frame" where
  "preprocess_biometric to_period raw =
     (case clean_common_columns to_period raw of
        Inl e \<Rightarrow> Inl e
      | Inr df \<Rightarrow>
          if \<not> distinct (map fst (numeric df)) then Inl AmbiguousTruthValue
          else Inr (on_columns cap_outliers
                 (on_columns clip_negative
                   (on_columns (impute (states df) (districts df)) df))))"



chapter \<open>Properties\<close>

section \<open>Extrema of a series and the rescale of \<open>normalize_column\<close>\<close>




















section \<open>The raw index: weighted sum and weight validation\<close>

lemma weight_sum_WEIGHTS: "weight_sum WEIGHTS = Fin 1"
  by (simp add: weight_sum_def WEIGHTS_def)

lemma calculate_afi_raw_default:
  "calculate_afi_raw df WEIGHTS =
     Inr (map (\<lambda>r. signal_row.extend r
            (raw_row.fields (weighted_sum (Fin 0.30) (Fin 0.25) (Fin 0.25) (Fin 0.20) r))) df)"
proof -
  have "lookup_weight WEIGHTS ''UIS'' = Inr (Fin 0.30)" "lookup_weight WEIGHTS ''RIS'' = Inr (Fin 0.25)"
    "lookup_weight WEIGHTS ''BSS'' = Inr (Fin 0.25)" "lookup_weight WEIGHTS ''TSD'' = Inr (Fin 0.20)"
    by (simp_all add: lookup_weight_def WEIGHTS_def)
  then show ?thesis by (simp add: calculate_afi_raw_def weight_sum_WEIGHTS)
qed

lemma AFI_raw_extend: "AFI_raw (signal_row.extend r (raw_row.fields v)) = v"
  by (simp add: signal_row.extend_def raw_row.fields_def)

lemma truncate_extend: "signal_row.truncate (signal_row.extend r (raw_row.fields v)) = r"
  by (simp add: signal_row.extend_def raw_row.fields_def signal_row.truncate_def)

text \<open>
  Claim C2. With the default weights \<open>calculate_afi_raw\<close> returns the table it was
  given with the column \<open>AFI_raw = 0.30*UIS + 0.25*RIS + 0.25*BSS + 0.20*TSD\<close> added
  to every row; on finite signals that is the real number of the same formula, and for
  \<open>UIS=10, RIS=20, BSS=30, TSD=40\<close> it is 23.5.
\<close>

theorem calculate_afi_raw_weighted_sum:
  "(\<exists>out. calculate_afi_raw df WEIGHTS = Inr out
       \<and> map signal_row.truncate out = df
       \<and> map AFI_raw out =
           map (\<lambda>r. fadd (fadd (fadd (fmul (Fin 0.30) (UIS r)) (fmul (Fin 0.25) (RIS r)))
                               (fmul (Fin 0.25) (BSS r))) (fmul (Fin 0.20) (TSD r))) df)
   \<and> weighted_sum (Fin 0.30) (Fin 0.25) (Fin 0.25) (Fin 0.20)
        \<lparr>state = s, district = d, period = p,
         UIS = Fin u, RIS = Fin r, BSS = Fin b, TSD = Fin t\<rparr>
       = Fin (0.30 * u + 0.25 * r + 0.25 * b + 0.20 * t)
   \<and> (\<exists>out. calculate_afi_raw
          [\<lparr>state = s, district = d, period = p,
            UIS = Fin 10, RIS = Fin 20, BSS = Fin 30, TSD = Fin 40\<rparr>] WEIGHTS = Inr out
        \<and> map AFI_raw out = [Fin 23.5])"
  by (simp add: calculate_afi_raw_default o_def AFI_raw_extend truncate_extend weighted_sum_def)

lemma calculate_afi_raw_ValueError_iff:
  "calculate_afi_raw df w = Inl (ValueError_weights_sum s)
     \<longleftrightarrow> s = weight_sum w \<and> \<not> isclose (weight_sum w) (Fin 1)"
  by (auto simp: calculate_afi_raw_def lookup_weight_def split: option.splits)

lemma calculate_afi_raw_ok:
  assumes "isclose (weight_sum w) (Fin 1)" "{''UIS'', ''RIS'', ''BSS'', ''TSD''} \<subseteq> fst ` set w"
  shows "\<exists>out. calculate_afi_raw df w = Inr out \<and> length out = length df"
proof -
  have "\<And>k. k \<in> fst ` set w \<Longrightarrow> \<exists>v. map_of w k = Some v"
    by (metis map_of_eq_None_iff not_Some_eq)
  then obtain wu wr wb wt where "map_of w ''UIS'' = Some wu" "map_of w ''RIS'' = Some wr"
      "map_of w ''BSS'' = Some wb" "map_of w ''TSD'' = Some wt"
    using assms(2) by (meson insert_subset)
  then show ?thesis using assms(1) by (simp add: calculate_afi_raw_def lookup_weight_def)
qed

lemma isclose_eps: "\<bar>e\<bar> \<le> 1 / 10 ^ 9 \<Longrightarrow> isclose (Fin (1 + e)) (Fin 1)"
  by simp

text \<open>
  Claim C8. \<open>calculate_afi_raw\<close> raises the ValueError that reports the sum of the
  weights exactly when \<open>np.isclose\<close> rejects that sum against 1.0. A sum of 0.99 or
  of 1.01 raises; a sum of exactly 1.0, or within 1e-9 of it, does not, and with the four
  component weights present the call returns the table.
\<close>

theorem calculate_afi_raw_weight_validation:
  "(calculate_afi_raw df w = Inl (ValueError_weights_sum s)
      \<longleftrightarrow> s = weight_sum w \<and> \<not> isclose (weight_sum w) (Fin 1))
   \<and> (weight_sum w = Fin 0.99 \<longrightarrow>
        calculate_afi_raw df w = Inl (ValueError_weights_sum (Fin 0.99)))
   \<and> (weight_sum w = Fin 1.01 \<longrightarrow>
        calculate_afi_raw df w = Inl (ValueError_weights_sum (Fin 1.01)))
   \<and> ((weight_sum w = Fin 1 \<or> (\<exists>e. weight_sum w = Fin (1 + e) \<and> \<bar>e\<bar> \<le> 1 / 10 ^ 9)) \<longrightarrow>
        (\<forall>s. calculate_afi_raw df w \<noteq> Inl (ValueError_weights_sum s))
        \<and> ({''UIS'', ''RIS'', ''BSS'', ''TSD''} \<subseteq> fst ` set w \<longrightarrow>
             (\<exists>out. calculate_afi_raw df w = Inr out \<and> length out = length df)))"
proof (intro conjI impI)
  show "calculate_afi_raw df w = Inl (ValueError_weights_sum s)
      \<longleftrightarrow> s = weight_sum w \<and> \<not> isclose (weight_sum w) (Fin 1)"
    by (rule calculate_afi_raw_ValueError_iff)
next
  assume "weight_sum w = Fin 0.99"
  then show "calculate_afi_raw df w = Inl (ValueError_weights_sum (Fin 0.99))"
    by (simp add: calculate_afi_raw_ValueError_iff)
next
  assume "weight_sum w = Fin 1.01"
  then show "calculate_afi_raw df w = Inl (ValueError_weights_sum (Fin 1.01))"
    by (simp add: calculate_afi_raw_ValueError_iff)
next
  assume a: "weight_sum w = Fin 1 \<or> (\<exists>e. weight_sum w = Fin (1 + e) \<and> \<bar>e\<bar> \<le> 1 / 10 ^ 9)"
  then have c: "isclose (weight_sum w) (Fin 1)" using isclose_eps by auto
  then show "\<forall>s. calculate_afi_raw df w \<noteq> Inl (ValueError_weights_sum s)"
    by (simp add: calculate_afi_raw_ValueError_iff)
  assume "{''UIS'', ''RIS'', ''BSS'', ''TSD''} \<subseteq> fst ` set w"
  with c show "\<exists>out. calculate_afi_raw df w = Inr out \<and> length out = length df"
    by (rule calculate_afi_raw_ok)
qed

theorem calculate_afi_raw_weight_validation_witness:
  "calculate_afi_raw [] [(''UIS'', Fin 0.29), (''RIS'', Fin 0.25), (''BSS'', Fin 0.25), (''TSD'', Fin 0.20)]
     = Inl (ValueError_weights_sum (Fin 0.99))
   \<and> calculate_afi_raw [] [(''UIS'', Fin 0.31), (''RIS'', Fin 0.25), (''BSS'', Fin 0.25), (''TSD'', Fin 0.20)]
     = Inl (ValueError_weights_sum (Fin 1.01))
   \<and> (\<exists>out. calculate_afi_raw [] WEIGHTS = Inr out \<and> length out = 0)
   \<and> (\<exists>out. calculate_afi_raw []
         [(''UIS'', Fin (0.30 + 1 / 10 ^ 9)), (''RIS'', Fin 0.25), (''BSS'', Fin 0.25), (''TSD'', Fin 0.20)]
         = Inr out \<and> length out = 0)"
proof -
  let ?lo = "[(''UIS'', Fin 0.29), (''RIS'', Fin 0.25), (''BSS'', Fin 0.25), (''TSD'', Fin 0.20)]"
  let ?hi = "[(''UIS'', Fin 0.31), (''RIS'', Fin 0.25), (''BSS'', Fin 0.25), (''TSD'', Fin 0.20)]"
  let ?ep = "[(''UIS'', Fin (0.30 + 1 / 10 ^ 9)), (''RIS'', Fin 0.25), (''BSS'', Fin 0.25), (''TSD'', Fin 0.20)]"
  have lo: "weight_sum ?lo = Fin 0.99" by (simp add: weight_sum_def)
  have hi: "weight_sum ?hi = Fin 1.01" by (simp add: weight_sum_def)
  have ep: "weight_sum ?ep = Fin (1 + 1 / 10 ^ 9)" by (simp add: weight_sum_def)
  have one: "weight_sum WEIGHTS = Fin 1" by (rule weight_sum_WEIGHTS)
  have k1: "{''UIS'', ''RIS'', ''BSS'', ''TSD''} \<subseteq> fst ` set WEIGHTS" by (simp add: WEIGHTS_def)
  have k2: "{''UIS'', ''RIS'', ''BSS'', ''TSD''} \<subseteq> fst ` set ?ep" by simp
  have e: "\<exists>e. weight_sum ?ep = Fin (1 + e) \<and> \<bar>e\<bar> \<le> 1 / 10 ^ 9"
    using ep by (intro exI[of _ "1 / 10 ^ 9"]) simp
  show ?thesis
    using calculate_afi_raw_weight_validation[of "[]" ?lo] lo
      calculate_afi_raw_weight_validation[of "[]" ?hi] hi
      calculate_afi_raw_weight_validation[of "[]" WEIGHTS] one k1
      calculate_afi_raw_weight_validation[of "[]" ?ep] e k2
    by (metis list.size(3))
qed

section \<open>The rescale of \<open>normalize_afi\<close> on equal raw values\<close>

lemma AFI_extend: "AFI (raw_row.extend r (afi_row.fields v)) = v"
  by (simp add: raw_row.extend_def afi_row.fields_def)

lemma raw_truncate_extend: "raw_row.truncate (raw_row.extend r (afi_row.fields v)) = r"
  by (simp add: raw_row.extend_def afi_row.fields_def raw_row.truncate_def)


text \<open>
  Claim C1 asks for a defined constant AFI when all raw values are equal. On the table
  of the single record \<open>UIS=10, RIS=20, BSS=30, TSD=40\<close> the raw index is 23.5, the
  minimum and the maximum are both 23.5, and the unguarded rescale computes
  \<open>100 * 0 / 0\<close>: the AFI of the record is NaN.
\<close>

theorem normalize_afi_single_record_nan:
  "calculate_afi_raw
     [\<lparr>state = ''Goa'', district = ''North Goa'', period = ''2024-01'',
       UIS = Fin 10, RIS = Fin 20, BSS = Fin 30, TSD = Fin 40\<rparr>] WEIGHTS =
     Inr [\<lparr>state = ''Goa'', district = ''North Goa'', period = ''2024-01'',
           UIS = Fin 10, RIS = Fin 20, BSS = Fin 30, TSD = Fin 40, AFI_raw = Fin 23.5\<rparr>]
   \<and> map AFI (normalize_afi
       [\<lparr>state = ''Goa'', district = ''North Goa'', period = ''2024-01'',
         UIS = Fin 10, RIS = Fin 20, BSS = Fin 30, TSD = Fin 40, AFI_raw = Fin 23.5\<rparr>]) = [NaN]"
  by (simp add: calculate_afi_raw_default weighted_sum_def signal_row.extend_def raw_row.fields_def
      normalize_afi_def series_min_def series_max_def fsub_def AFI_extend)

section \<open>Categories\<close>

lemma categorize_afi_all_false:
  "\<not> flt s (Fin 20) \<Longrightarrow> \<not> flt s (Fin 40) \<Longrightarrow> \<not> flt s (Fin 60) \<Longrightarrow> \<not> flt s (Fin 80)
    \<Longrightarrow> categorize_afi s = ''Very High Friction''"
  by simp




text \<open>
  Claim C4. \<open>add_categories\<close> keeps the rows and labels a finite AFI by the bands
  \<open>[0,20)\<close>, \<open>[20,40)\<close>, \<open>[40,60)\<close>, \<open>[60,80)\<close> and \<open>[80,100]\<close>: 19.999 is
  "Very Low Friction", 20.0 is "Low Friction" and 100 is "Very High Friction".
\<close>

theorem add_categories_bands:
  "map fst (add_categories df) = df
   \<and> (\<forall>r c x. (r, c) \<in> set (add_categories df) \<and> AFI r = Fin x \<longrightarrow>
        (0 \<le> x \<and> x < 20 \<longrightarrow> c = ''Very Low Friction'')
      \<and> (20 \<le> x \<and> x < 40 \<longrightarrow> c = ''Low Friction'')
      \<and> (40 \<le> x \<and> x < 60 \<longrightarrow> c = ''Moderate Friction'')
      \<and> (60 \<le> x \<and> x < 80 \<longrightarrow> c = ''High Friction'')
      \<and> (80 \<le> x \<and> x \<le> 100 \<longrightarrow> c = ''Very High Friction''))
   \<and> categorize_afi (Fin 19.999) = ''Very Low Friction''
   \<and> categorize_afi (Fin 20.0) = ''Low Friction''
   \<and> categorize_afi (Fin 100) = ''Very High Friction''"
  by (auto simp: add_categories_def o_def)

theorem add_categories_bands_witness:
  "add_categories
     [\<lparr>state = ''Goa'', district = ''North Goa'', period = ''2024-01'',
       UIS = Fin 10, RIS = Fin 20, BSS = Fin 30, TSD = Fin 40, AFI_raw = Fin 23.5, AFI = Fin 20\<rparr>]
   = [(\<lparr>state = ''Goa'', district = ''North Goa'', period = ''2024-01'',
       UIS = Fin 10, RIS = Fin 20, BSS = Fin 30, TSD = Fin 40, AFI_raw = Fin 23.5, AFI = Fin 20\<rparr>,
      ''Low Friction'')]"
proof -
  let ?r = "\<lparr>state = ''Goa'', district = ''North Goa'', period = ''2024-01'',
       UIS = Fin 10, RIS = Fin 20, BSS = Fin 30, TSD = Fin 40, AFI_raw = Fin 23.5, AFI = Fin 20\<rparr>"
  obtain c where c: "add_categories [?r] = [(?r, c)]" by (simp add: add_categories_def)
  then have h: "(?r, c) \<in> set (add_categories [?r]) \<and> AFI ?r = Fin 20" by simp
  have "\<forall>r c x. (r, c) \<in> set (add_categories [?r]) \<and> AFI r = Fin x \<longrightarrow>
          (20 \<le> x \<and> x < 40 \<longrightarrow> c = ''Low Friction'')"
    using add_categories_bands[of "[?r]"] by blast
  then have "(20::real) \<le> 20 \<and> (20::real) < 40 \<longrightarrow> c = ''Low Friction''"
    using h by blast
  then have "c = ''Low Friction''" by simp
  then show ?thesis using c by simp
qed

section \<open>Rankings\<close>

lemma fkey_inj: "fkey a = fkey b \<longleftrightarrow> a = b"
  by (cases a; cases b) auto

lemma flt_fkey: "a \<noteq> NaN \<Longrightarrow> b \<noteq> NaN \<Longrightarrow> flt a b \<longleftrightarrow> fkey a < fkey b"
  by (cases a; cases b) auto

lemma takeWhile_desc:
  assumes "sorted_wrt (\<lambda>a b. fkey b \<le> fkey a) zs" "x \<in> set zs"
  shows "takeWhile (\<lambda>y. y \<noteq> x) zs = filter (\<lambda>y. fkey x < fkey y) zs"
  using assms
proof (induction zs)
  case Nil
  then show ?case by simp
next
  case (Cons z zs)
  show ?case
  proof (cases "z = x")
    case True
    have "\<forall>y \<in> set zs. \<not> fkey x < fkey y" using Cons.prems(1) True by auto
    then have "filter (\<lambda>y. fkey x < fkey y) zs = []" by (simp add: filter_empty_conv)
    then show ?thesis using True by simp
  next
    case False
    then have x: "x \<in> set zs" using Cons.prems(2) by simp
    then have "fkey x \<le> fkey z" using Cons.prems(1) by simp
    moreover have "fkey x \<noteq> fkey z" using False by (simp add: fkey_inj)
    ultimately have "fkey x < fkey z" by simp
    moreover have "takeWhile (\<lambda>y. y \<noteq> x) zs = filter (\<lambda>y. fkey x < fkey y) zs"
      using Cons.IH Cons.prems(1) x by simp
    ultimately show ?thesis using False by simp
  qed
qed

lemma sorted_desc_sorted: "sorted_wrt (\<lambda>a b. fkey b \<le> fkey a) (sorted_desc col)"
proof -
  have "sorted (map fkey (sort_key fkey (filter (\<lambda>y. y \<noteq> NaN) col)))" by (rule sorted_sort_key)
  then have "sorted_wrt (\<lambda>a b. fkey a \<le> fkey b) (sort_key fkey (filter (\<lambda>y. y \<noteq> NaN) col))"
    by (simp add: sorted_map)
  then show ?thesis by (simp add: sorted_desc_def sorted_wrt_rev)
qed

lemma mset_sorted_desc: "mset (sorted_desc col) = mset (filter (\<lambda>y. y \<noteq> NaN) col)"
  by (simp add: sorted_desc_def)

lemma length_filter_sorted_desc:
  "length (filter P (sorted_desc col)) = length (filter P (filter (\<lambda>y. y \<noteq> NaN) col))"
proof -
  have "mset (filter P (sorted_desc col)) = mset (filter P (filter (\<lambda>y. y \<noteq> NaN) col))"
    by (simp only: mset_filter mset_sorted_desc)
  then show ?thesis by (metis size_mset)
qed

lemma rank_min_desc_count:
  assumes "x \<in> set col" "x \<noteq> NaN"
  shows "rank_min_desc col x = Fin (real (Suc (length (filter (\<lambda>y. flt x y) col))))"
proof -
  have xin: "x \<in> set (sorted_desc col)"
    using assms by (metis (mono_tags, lifting) mem_Collect_eq mset_sorted_desc set_filter set_mset_mset)
  have "length (takeWhile (\<lambda>y. y \<noteq> x) (sorted_desc col))
        = length (filter (\<lambda>y. fkey x < fkey y) (filter (\<lambda>y. y \<noteq> NaN) col))"
    by (simp add: takeWhile_desc[OF sorted_desc_sorted xin] length_filter_sorted_desc)
  also have "filter (\<lambda>y. fkey x < fkey y) (filter (\<lambda>y. y \<noteq> NaN) col) = filter (\<lambda>y. flt x y) col"
    unfolding filter_filter
  proof (rule filter_cong[OF refl])
    fix y show "(y \<noteq> NaN \<and> fkey x < fkey y) = flt x y"
      using flt_fkey[OF assms(2), of y] by (cases "y = NaN") (cases x; simp)+
  qed
  finally show ?thesis using assms(2) by (simp add: rank_min_desc_def)
qed

lemma to_int_rank: "to_int (Fin (real n)) = Some (int n)"
  by simp

lemma astype_int_Inr:
  "astype_int col = Inr out \<longleftrightarrow> (\<forall>x \<in> set col. to_int x \<noteq> None) \<and> out = map (\<lambda>x. the (to_int x)) col"
  by (auto simp: astype_int_def)

lemma rank_min_desc_NaN_iff: "rank_min_desc col x = NaN \<longleftrightarrow> x = NaN"
  by (simp add: rank_min_desc_def)

lemma to_int_rank_None_iff: "to_int (rank_min_desc col x) = None \<longleftrightarrow> x = NaN"
  by (simp add: rank_min_desc_def)

lemma to_int_rank_Some: "x \<noteq> NaN \<Longrightarrow> \<exists>y. to_int (rank_min_desc col x) = Some y"
  by (simp add: rank_min_desc_def)

lemma add_rankings_Inr_iff:
  "(\<exists>out. add_rankings df = Inr out) \<longleftrightarrow> (\<forall>r \<in> set df. AFI r \<noteq> NaN)"
proof
  assume "\<exists>out. add_rankings df = Inr out"
  then obtain national where "astype_int (map (rank_min_desc (map AFI df)) (map AFI df)) = Inr national"
    by (auto simp: add_rankings_def split: sum.splits)
  then have "\<forall>x \<in> set (map AFI df). to_int (rank_min_desc (map AFI df) x) \<noteq> None"
    by (auto simp: astype_int_Inr)
  then show "\<forall>r \<in> set df. AFI r \<noteq> NaN" by (auto simp: to_int_rank_None_iff)
next
  assume a: "\<forall>r \<in> set df. AFI r \<noteq> NaN"
  have 1: "\<forall>x \<in> set (map (rank_min_desc (map AFI df)) (map AFI df)). to_int x \<noteq> None"
    using a by (auto simp: to_int_rank_Some)
  have 2: "\<forall>x \<in> set (state_rank_column df). to_int x \<noteq> None"
    using a by (auto simp: state_rank_column_def to_int_rank_Some)
  show "\<exists>out. add_rankings df = Inr out"
    using 1 2 by (simp add: add_rankings_def astype_int_def)
qed

lemma ranked_fields:
  "national_rank (afi_row.extend r (ranked_row.fields n s p)) = n"
  "state_rank (afi_row.extend r (ranked_row.fields n s p)) = s"
  "national_percentile (afi_row.extend r (ranked_row.fields n s p)) = p"
  "afi_row.truncate (afi_row.extend r (ranked_row.fields n s p)) = r"
  by (simp_all add: afi_row.extend_def ranked_row.fields_def afi_row.truncate_def)

lemma add_rankings_rows:
  assumes "add_rankings df = Inr out" "i < length df"
  shows "length out = length df"
    and "afi_row.truncate (out ! i) = df ! i"
    and "national_rank (out ! i) = 1 + int (length (filter (\<lambda>r'. flt (AFI (df ! i)) (AFI r')) df))"
    and "state_rank (out ! i) =
           1 + int (length (filter (\<lambda>r'. state r' = state (df ! i) \<and> flt (AFI (df ! i)) (AFI r')) df))"
proof -
  have nn: "\<forall>r \<in> set df. AFI r \<noteq> NaN" using assms(1) add_rankings_Inr_iff by blast
  have 1: "\<forall>x \<in> set (map (rank_min_desc (map AFI df)) (map AFI df)). to_int x \<noteq> None"
    using nn by (auto simp: to_int_rank_Some)
  have 2: "\<forall>x \<in> set (state_rank_column df). to_int x \<noteq> None"
    using nn by (auto simp: state_rank_column_def to_int_rank_Some)
  have out: "out = map (\<lambda>i. afi_row.extend (df ! i)
                     (ranked_row.fields
                        (the (to_int (rank_min_desc (map AFI df) (AFI (df ! i)))))
                        (the (to_int (state_rank_column df ! i)))
                        (calculate_percentile_rank (map AFI df) ! i)))
                   [0..<length df]"
    using assms(1) 1 2 by (auto simp: add_rankings_def astype_int_def state_rank_column_def)
  show "length out = length df" by (simp add: out)
  show "afi_row.truncate (out ! i) = df ! i" using assms(2) by (simp add: out ranked_fields)
  have ri: "df ! i \<in> set df" using assms(2) by simp
  have xi: "AFI (df ! i) \<noteq> NaN" using nn ri by blast
  have "rank_min_desc (map AFI df) (AFI (df ! i))
          = Fin (real (Suc (length (filter (\<lambda>y. flt (AFI (df ! i)) y) (map AFI df)))))"
    using ri xi by (intro rank_min_desc_count) auto
  then show "national_rank (out ! i) = 1 + int (length (filter (\<lambda>r'. flt (AFI (df ! i)) (AFI r')) df))"
    using assms(2) by (simp add: out ranked_fields filter_map o_def)
  have "state_rank_column df ! i
          = rank_min_desc (map AFI (filter (\<lambda>r'. state r' = state (df ! i)) df)) (AFI (df ! i))"
    using assms(2) by (simp add: state_rank_column_def)
  also have "\<dots> = Fin (real (Suc (length (filter (\<lambda>y. flt (AFI (df ! i)) y)
                        (map AFI (filter (\<lambda>r'. state r' = state (df ! i)) df))))))"
    using ri xi by (intro rank_min_desc_count) auto
  finally show "state_rank (out ! i) =
           1 + int (length (filter (\<lambda>r'. state r' = state (df ! i) \<and> flt (AFI (df ! i)) (AFI r')) df))"
    using assms(2) by (simp add: out ranked_fields filter_map o_def conj_commute)
qed

lemma fixture_ranks:
  "\<exists>out. add_rankings
     [\<lparr>state = ''Goa'', district = ''North Goa'', period = ''2024-01'',
       UIS = Fin 10, RIS = Fin 20, BSS = Fin 30, TSD = Fin 40, AFI_raw = Fin 23.5, AFI = Fin 90\<rparr>,
      \<lparr>state = ''Goa'', district = ''South Goa'', period = ''2024-01'',
       UIS = Fin 10, RIS = Fin 20, BSS = Fin 30, TSD = Fin 40, AFI_raw = Fin 23.5, AFI = Fin 90\<rparr>,
      \<lparr>state = ''Kerala'', district = ''Idukki'', period = ''2024-01'',
       UIS = Fin 5, RIS = Fin 5, BSS = Fin 5, TSD = Fin 5, AFI_raw = Fin 5, AFI = Fin 50\<rparr>] = Inr out
    \<and> map national_rank out = [1, 1, 3] \<and> map state_rank out = [1, 1, 1]"
  by (simp add: add_rankings_def astype_int_def state_rank_column_def rank_min_desc_def sorted_desc_def
       ranked_fields upt_rec[of 0] upt_rec[of 1] upt_rec[of 2] upt_rec[of 3])

text \<open>
  Claim C3. \<open>add_rankings\<close> returns a table exactly when no AFI is NaN. In it every
  row keeps its columns, its \<open>national_rank\<close> is 1 plus the number of rows with a
  strictly greater AFI, and its \<open>state_rank\<close> is 1 plus the number of rows of the
  same state with a strictly greater AFI. For three regions with AFI 90, 90 and 50 the
  national ranks are 1, 1 and 3.
\<close>

theorem add_rankings_min_rank:
  "((\<exists>out. add_rankings df = Inr out) \<longleftrightarrow> (\<forall>r \<in> set df. AFI r \<noteq> NaN))
   \<and> (\<forall>out i. add_rankings df = Inr out \<and> i < length df \<longrightarrow>
         length out = length df
       \<and> afi_row.truncate (out ! i) = df ! i
       \<and> national_rank (out ! i)
            = 1 + int (length (filter (\<lambda>r'. flt (AFI (df ! i)) (AFI r')) df))
       \<and> state_rank (out ! i)
            = 1 + int (length (filter (\<lambda>r'. state r' = state (df ! i)
                                          \<and> flt (AFI (df ! i)) (AFI r')) df)))
   \<and> (\<exists>out. add_rankings
         [\<lparr>state = ''Goa'', district = ''North Goa'', period = ''2024-01'',
           UIS = Fin 10, RIS = Fin 20, BSS = Fin 30, TSD = Fin 40, AFI_raw = Fin 23.5, AFI = Fin 90\<rparr>,
          \<lparr>state = ''Goa'', district = ''South Goa'', period = ''2024-01'',
           UIS = Fin 10, RIS = Fin 20, BSS = Fin 30, TSD = Fin 40, AFI_raw = Fin 23.5, AFI = Fin 90\<rparr>,
          \<lparr>state = ''Kerala'', district = ''Idukki'', period = ''2024-01'',
           UIS = Fin 5, RIS = Fin 5, BSS = Fin 5, TSD = Fin 5, AFI_raw = Fin 5, AFI = Fin 50\<rparr>] = Inr out
        \<and> map national_rank out = [1, 1, 3] \<and> map state_rank out = [1, 1, 1])"
  using add_rankings_Inr_iff[of df] add_rankings_rows[of df] fixture_ranks by blast

theorem add_rankings_min_rank_witness:
  "\<exists>out. add_rankings
     [\<lparr>state = ''Goa'', district = ''North Goa'', period = ''2024-01'',
       UIS = Fin 10, RIS = Fin 20, BSS = Fin 30, TSD = Fin 40, AFI_raw = Fin 23.5, AFI = Fin 70\<rparr>,
      \<lparr>state = ''Goa'', district = ''South Goa'', period = ''2024-01'',
       UIS = Fin 10, RIS = Fin 20, BSS = Fin 30, TSD = Fin 40, AFI_raw = Fin 23.5, AFI = Fin 80\<rparr>,
      \<lparr>state = ''Kerala'', district = ''Idukki'', period = ''2024-01'',
       UIS = Fin 5, RIS = Fin 5, BSS = Fin 5, TSD = Fin 5, AFI_raw = Fin 5, AFI = Fin 80\<rparr>] = Inr out
    \<and> length out = 3 \<and> national_rank (out ! 0) = 3 \<and> state_rank (out ! 0) = 2"
proof -
  let ?df = "[\<lparr>state = ''Goa'', district = ''North Goa'', period = ''2024-01'',
       UIS = Fin 10, RIS = Fin 20, BSS = Fin 30, TSD = Fin 40, AFI_raw = Fin 23.5, AFI = Fin 70\<rparr>,
      \<lparr>state = ''Goa'', district = ''South Goa'', period = ''2024-01'',
       UIS = Fin 10, RIS = Fin 20, BSS = Fin 30, TSD = Fin 40, AFI_raw = Fin 23.5, AFI = Fin 80\<rparr>,
      \<lparr>state = ''Kerala'', district = ''Idukki'', period = ''2024-01'',
       UIS = Fin 5, RIS = Fin 5, BSS = Fin 5, TSD = Fin 5, AFI_raw = Fin 5, AFI = Fin 80\<rparr>]"
  note t = add_rankings_min_rank[of ?df]
  have "\<forall>r \<in> set ?df. AFI r \<noteq> NaN" by simp
  then obtain out where out: "add_rankings ?df = Inr out" using t by blast
  have i: "(0::nat) < length ?df" by simp
  have "length out = length ?df
       \<and> national_rank (out ! 0)
            = 1 + int (length (filter (\<lambda>r'. flt (AFI (?df ! 0)) (AFI r')) ?df))
       \<and> state_rank (out ! 0)
            = 1 + int (length (filter (\<lambda>r'. state r' = state (?df ! 0)
                                          \<and> flt (AFI (?df ! 0)) (AFI r')) ?df))"
    using t out i by blast
  then have "length out = 3 \<and> national_rank (out ! 0) = 3 \<and> state_rank (out ! 0) = 2"
    by simp
  then show ?thesis using out by blast
qed

section \<open>The string functions are idempotent\<close>
























section \<open>Columns: medians, percentiles and the three passes\<close>

lemma present_set: "x \<in> set (present col) \<longleftrightarrow> Some x \<in> set col"
  by (induction col) (auto simp: present_def)

lemma present_Nil_iff: "present col = [] \<longleftrightarrow> (\<forall>v \<in> set col. v = None)"
  by (induction col) (auto simp: present_def)


lemma median_None_iff: "median col = None \<longleftrightarrow> present col = []"
proof (cases "present col = []")
  case True
  then show ?thesis by (simp add: median_def)
next
  case False
  then have "length (sort (present col)) \<noteq> 0" by simp
  then have "median col \<noteq> None"
    unfolding median_def Let_def by (simp only: if_False split: if_split) blast
  then show ?thesis using False by simp
qed



lemma length_fillna: "length (fillna m col) = length col"
  by (simp add: fillna_def)

lemma fillna_Some: "None \<notin> set (fillna (Some y) col)"
  by (auto simp: fillna_def split: option.splits)

lemma fillna_None: "fillna None col = col"
  by (induction col) (auto simp: fillna_def split: option.splits)

lemma fillna_keeps: "Some x \<in> set col \<Longrightarrow> Some x \<in> set (fillna m col)"
  by (force simp: fillna_def)

lemma length_group_fill:
  "length sts = length col \<Longrightarrow> length dis = length col \<Longrightarrow> length (group_fill sts dis col) = length col"
  by (simp add: group_fill_def)

lemma group_fill_keeps:
  assumes "length sts = length col" "length dis = length col" "Some x \<in> set col"
  shows "Some x \<in> set (group_fill sts dis col)"
proof -
  obtain i where i: "i < length col" "col ! i = Some x" using assms(3) by (metis in_set_conv_nth)
  then have "group_fill sts dis col ! i = Some x"
    using assms(1,2) by (simp add: group_fill_def)
  moreover have "i < length (group_fill sts dis col)" using i assms(1,2) by (simp add: length_group_fill)
  ultimately show ?thesis by (metis nth_mem)
qed

lemma group_fill_all_None:
  assumes "length sts = length col" "length dis = length col" "present col = []"
  shows "group_fill sts dis col = col"
proof (rule nth_equalityI)
  show "length (group_fill sts dis col) = length col" using assms by (simp add: length_group_fill)
next
  fix i assume "i < length (group_fill sts dis col)"
  then have i: "i < length col" using assms by (simp add: length_group_fill)
  have none: "\<forall>v \<in> set col. v = None" using assms(3) by (simp add: present_Nil_iff)
  then have ci: "col ! i = None" using i by simp
  let ?g = "map (\<lambda>(s', d', v'). v')
              (filter (\<lambda>(s', d', v'). s' = sts ! i \<and> d' = dis ! i) (zip sts (zip dis col)))"
  have "set ?g \<subseteq> set col"
    by (auto dest!: set_zip_rightD)
  then have "\<forall>v \<in> set ?g. v = None" using none by blast
  then have "median ?g = None" by (simp add: median_None_iff present_Nil_iff)
  then show "group_fill sts dis col ! i = col ! i"
    using i assms(1,2) ci by (simp add: group_fill_def)
qed

lemma length_impute:
  "length sts = length col \<Longrightarrow> length dis = length col \<Longrightarrow> length (impute sts dis col) = length col"
  by (simp add: impute_def Let_def length_fillna length_group_fill)

lemma impute_no_missing:
  assumes "length sts = length col" "length dis = length col" "present col \<noteq> []"
  shows "None \<notin> set (impute sts dis col)"
proof (cases "None \<in> set col")
  case False
  then show ?thesis by (simp add: impute_def)
next
  case True
  obtain x where x: "Some x \<in> set col" using assms(3) by (cases "present col") (auto simp: present_set[symmetric])
  then have "Some x \<in> set (group_fill sts dis col)" using assms(1,2) by (rule group_fill_keeps[rotated 2])
  then have "present (group_fill sts dis col) \<noteq> []" by (auto simp: present_set[symmetric])
  then obtain m where "median (group_fill sts dis col) = Some m"
    using median_None_iff by (metis not_Some_eq)
  then show ?thesis using True by (simp add: impute_def Let_def fillna_Some)
qed

lemma impute_all_None:
  assumes "length sts = length col" "length dis = length col" "present col = []"
  shows "impute sts dis col = col"
proof -
  have g: "group_fill sts dis col = col" using assms by (rule group_fill_all_None)
  have "median col = None" using assms(3) by (simp add: median_None_iff)
  then show ?thesis by (simp add: impute_def Let_def g fillna_None)
qed

lemma impute_present:
  assumes "length sts = length col" "length dis = length col"
  shows "present (impute sts dis col) = [] \<longleftrightarrow> present col = []"
proof
  assume "present col = []"
  then show "present (impute sts dis col) = []" using impute_all_None[OF assms] by simp
next
  assume e: "present (impute sts dis col) = []"
  show "present col = []"
  proof (rule ccontr)
    assume ne: "present col \<noteq> []"
    then have "None \<notin> set (impute sts dis col)" using assms by (rule impute_no_missing[rotated 2])
    moreover have "\<forall>v \<in> set (impute sts dis col). v = None" using e by (simp add: present_Nil_iff)
    moreover have "impute sts dis col \<noteq> []"
      using ne length_impute[OF assms] by (auto simp: present_def)
    ultimately show False by (metis last_in_set)
  qed
qed



lemma present_map_option: "present (map (map_option f) col) = map f (present col)"
  by (induction col) (auto simp: present_def)


lemma clip_present: "present (clip_negative col) = [] \<longleftrightarrow> present col = []"
  by (simp add: clip_negative_def present_map_option)








section \<open>Frames, rows and duplicates\<close>


lemma length_rows_of: "length (rows_of df) = length (states df)"
  by (simp add: rows_of_def)
















section \<open>The cleaning step and the preprocessed columns\<close>















section \<open>Evaluating the preprocessing on a frame\<close>

lemma present_simps:
  "present [] = []" "present (None # col) = present col" "present (Some x # col) = x # present col"
  by (simp_all add: present_def)

lemmas string_eval = normalize_name_def strip_def replace_space_def title_def lower_char_def upper_char_def
  upper_letters_def lower_letters_def is_cased_def is_space_def
lemmas period_eval = iso_month_def valid_month_def valid_day_def is_digit_def digit_val_def days_in_month_def
lemmas frame_eval = drop_duplicates_def rows_of_def of_rows_def upt_rec[of 0] upt_rec[of 1] upt_rec[of 2]
  upt_rec[of 3] on_columns_def
lemmas column_eval = impute_def group_fill_def fillna_def median_def quantile_def present_simps
  clip_negative_def cap_outliers_def Let_def

lemma ex1:
  "preprocess_biometric iso_month
     \<lparr>states = [''Goa'', ''Goa''], districts = [''North Goa'', ''South Goa''],
      periods = [''2024-01'', ''2024-01''],
      numeric = [(''bio_updates'', [Some 0, Some 100]), (''iris_updates'', [None, None])]\<rparr>
   = Inr \<lparr>states = [''Goa'', ''Goa''], districts = [''North Goa'', ''South Goa''],
      periods = [''2024-01'', ''2024-01''],
      numeric = [(''bio_updates'', [Some 0, Some 99]), (''iris_updates'', [None, None])]\<rparr>"
  by (simp add: preprocess_biometric_def clean_common_columns_def string_eval period_eval frame_eval column_eval)

lemma ex2:
  "preprocess_biometric iso_month
     \<lparr>states = ['' goa'', ''GOA ''], districts = [''north goa'', ''North  Goa''],
      periods = [''2024-01-15'', ''2024-01''],
      numeric = [(''Bio Updates '', [Some (-1), Some (-2)])]\<rparr>
   = Inr \<lparr>states = [''Goa'', ''Goa''], districts = [''North Goa'', ''North  Goa''],
      periods = [''2024-01'', ''2024-01''],
      numeric = [(''bio_updates'', [Some 0, Some 0])]\<rparr>"
  by (simp add: preprocess_biometric_def clean_common_columns_def string_eval period_eval frame_eval column_eval)

section \<open>What the preprocessing guarantees, and when a second run changes nothing\<close>








end
